theory Spec2Isabelle
  imports Main
begin

section \<open>JavaScript values and React elements\<close>

text \<open>
  The component is a function from its props to a React element tree.  Values are
  modelled as JavaScript has them: the tests of the source are truthiness tests and
  its \<open>||\<close> and \<open>&&\<close> return one of their operands, not a boolean.

  A function value is either a callback supplied by the caller, identified by a number,
  or one of the two closures that the component creates, with the values it captures.
  Calling a caller's callback is recorded as an event: the callback and its arguments.
\<close>

datatype handler =
    Callback nat
  | SettingClick node node
  | SearchSubmit "handler option" node
and node =
    Undefined
  | Null
  | Bool bool
  | Num int
  | Str string
  | Fn handler
  | Arr "node list"
  | Obj "(string \<times> node) list"
  | Elem string "string option" "(string \<times> node) list" "node list"

text \<open>
  \<open>Elem type key props children\<close> is a React element.  As in React, the key is not
  one of the props.  \<open>Obj\<close> is a plain object, with its own properties in order.
\<close>

type_synonym props = "(string \<times> node) list"
type_synonym event = "nat \<times> node list"

fun truthy :: "node \<Rightarrow> bool" where
  "truthy Undefined = False"
| "truthy Null = False"
| "truthy (Bool b) = b"
| "truthy (Num n) = (n \<noteq> 0)"
| "truthy (Str s) = (s \<noteq> [])"
| "truthy (Fn h) = True"
| "truthy (Arr xs) = True"
| "truthy (Obj ps) = True"
| "truthy (Elem t k ps cs) = True"

definition js_or :: "node \<Rightarrow> node \<Rightarrow> node" where
  "js_or a b = (if truthy a then a else b)"

definition js_and :: "node \<Rightarrow> node \<Rightarrow> node" where
  "js_and a b = (if truthy a then b else a)"

definition js_not :: "node \<Rightarrow> node" where
  "js_not a = Bool (\<not> truthy a)"

text \<open>What React renders nothing for: \<open>undefined\<close>, \<open>null\<close> and the booleans.  A number,
  also \<open>0\<close>, is rendered as text.\<close>

fun renders_nothing :: "node \<Rightarrow> bool" where
  "renders_nothing Undefined = True"
| "renders_nothing Null = True"
| "renders_nothing (Bool b) = True"
| "renders_nothing n = False"

fun isValidElement :: "node \<Rightarrow> bool" where
  "isValidElement (Elem t k ps cs) = True"
| "isValidElement n = False"

definition lookup :: "props \<Rightarrow> string \<Rightarrow> node" where
  "lookup ps k = (case map_of ps k of Some v \<Rightarrow> v | None \<Rightarrow> Undefined)"

text \<open>Property access \<open>v.k\<close> for the property names the source reads (\<open>icon\<close>, \<open>tooltip\<close>,
  \<open>onClick\<close>, \<open>key\<close>, \<open>onSearch\<close>, \<open>tab\<close>): only a plain object has them.\<close>

fun get :: "node \<Rightarrow> string \<Rightarrow> node" where
  "get (Obj ps) k = lookup ps k"
| "get n k = Undefined"

fun set_prop :: "string \<Rightarrow> node \<Rightarrow> props \<Rightarrow> props" where
  "set_prop k v [] = [(k, v)]"
| "set_prop k v ((k', v') # ps) = (if k = k' then (k, v) # ps else (k', v') # set_prop k v ps)"

text \<open>\<open>{...base, ...extra}\<close>: the properties of \<open>extra\<close> override those of \<open>base\<close>.\<close>

fun spread :: "props \<Rightarrow> props \<Rightarrow> props" where
  "spread base [] = base"
| "spread base ((k, v) # extra) = spread (set_prop k v base) extra"

definition digit :: "nat \<Rightarrow> char" where
  "digit d = ''0123456789'' ! d"

function string_of_nat :: "nat \<Rightarrow> string" where
  "string_of_nat n = (if n < 10 then [digit n] else string_of_nat (n div 10) @ [digit (n mod 10)])"
  by pat_completeness auto
termination
  by (relation "measure id") auto

declare string_of_nat.simps [simp del]

text \<open>The own enumerable properties of a value, as the spread \<open>{...v}\<close> copies them: those of
  an object; the indexed ones of an array or a string; none for the other values.\<close>

fun ownProps :: "node \<Rightarrow> props" where
  "ownProps (Obj ps) = ps"
| "ownProps (Arr xs) = map (\<lambda>(i, x). (string_of_nat i, x)) (enumerate 0 xs)"
| "ownProps (Str s) = map (\<lambda>(i, c). (string_of_nat i, Str [c])) (enumerate 0 s)"
| "ownProps n = []"

fun opt_fn :: "handler option \<Rightarrow> node" where
  "opt_fn None = Undefined"
| "opt_fn (Some h) = Fn h"

fun opt_str :: "string option \<Rightarrow> node" where
  "opt_str None = Undefined"
| "opt_str (Some s) = Str s"

text \<open>
  Calling a function value with a list of arguments either returns or raises a
  \<open>TypeError\<close>, the one error of this component: calling a value that is no function.
  Either way it has made calls of the caller's callbacks, in order; a caller's callback
  returns.
  \<^item> \<open>SettingClick onClick key\<close> is \<open>() => { if (onClick) { onClick(key); } }\<close>, with the
    \<open>onClick\<close> and the \<open>key\<close> of the descriptor as they are;
  \<^item> \<open>SearchSubmit onSearch own\<close> is
    \<open>(...restParams) => { onSearch?.(restParams?.[0]); search.onSearch?.(...restParams); }\<close>
    where \<open>own\<close> is the value of \<open>search.onSearch\<close>; the props do not change between
    the render and the call.
\<close>

datatype outcome =
    Returns "event list"
  | Raises "event list"

fun then_do :: "outcome \<Rightarrow> outcome \<Rightarrow> outcome" where
  "then_do (Returns es) (Returns fs) = Returns (es @ fs)"
| "then_do (Returns es) (Raises fs) = Raises (es @ fs)"
| "then_do (Raises es) r = Raises es"

fun invoke :: "handler \<Rightarrow> node list \<Rightarrow> outcome" where
  "invoke (Callback c) args = Returns [(c, args)]"
| "invoke (SettingClick onClick key) args =
     (if truthy onClick then
        (case onClick of Fn h \<Rightarrow> invoke h [key] | _ \<Rightarrow> Raises [])
      else Returns [])"
| "invoke (SearchSubmit onSearch own) restParams =
     then_do
       (case onSearch of
          Some h \<Rightarrow> invoke h [case restParams of [] \<Rightarrow> Undefined | q # rest \<Rightarrow> q]
        | None \<Rightarrow> Returns [])
       (case own of
          Undefined \<Rightarrow> Returns []
        | Null \<Rightarrow> Returns []
        | Fn h \<Rightarrow> invoke h restParams
        | _ \<Rightarrow> Raises [])"

fun children_of :: "node \<Rightarrow> node list" where
  "children_of (Elem t k ps cs) = cs"
| "children_of n = []"

fun elem_prop :: "node \<Rightarrow> string \<Rightarrow> node" where
  "elem_prop (Elem t k ps cs) name = lookup ps name"
| "elem_prop n name = Undefined"

fun elem_type :: "node \<Rightarrow> string" where
  "elem_type (Elem t k ps cs) = t"
| "elem_type n = []"

fun elem_key :: "node \<Rightarrow> string option" where
  "elem_key (Elem t k ps cs) = k"
| "elem_key n = None"

text \<open>Firing the event handler \<open>name\<close> of an element: the call of the function that the
  element has as this prop.\<close>

definition fire :: "node \<Rightarrow> string \<Rightarrow> node list \<Rightarrow> outcome" where
  "fire el name args =
     (case elem_prop el name of Fn h \<Rightarrow> invoke h args | _ \<Rightarrow> Returns [])"

text \<open>An element of type \<open>div\<close> with the given class name.\<close>

fun has_class :: "string \<Rightarrow> node \<Rightarrow> bool" where
  "has_class c (Elem t k ps cs) = (t = ''div'' \<and> lookup ps ''className'' = Str c)"
| "has_class c n = False"

text \<open>\<open>classNames\<close> of the package of that name: the non-empty names joined by spaces.\<close>

fun join_space :: "string list \<Rightarrow> string" where
  "join_space [] = []"
| "join_space [x] = x"
| "join_space (x # y # ys) = x @ '' '' @ join_space (y # ys)"

definition classNames :: "string list \<Rightarrow> string" where
  "classNames xs = join_space (filter (\<lambda>s. s \<noteq> []) xs)"

text \<open>
  The string of a value, \<open>'' + v\<close> and \<open>v.toString()\<close>: an array is its elements joined by
  commas, \<open>null\<close> and \<open>undefined\<close> among them as the empty string.  The source text of a
  function is not modelled and stands as \<open>function\<close>.
\<close>

fun join_comma :: "string list \<Rightarrow> string" where
  "join_comma [] = []"
| "join_comma [x] = x"
| "join_comma (x # y # ys) = x @ '','' @ join_comma (y # ys)"

fun key_string :: "node \<Rightarrow> string" where
  "key_string (Str s) = s"
| "key_string (Num n) = (if n < 0 then ''-'' @ string_of_nat (nat (- n)) else string_of_nat (nat n))"
| "key_string (Bool b) = (if b then ''true'' else ''false'')"
| "key_string Null = ''null''"
| "key_string Undefined = ''undefined''"
| "key_string (Fn h) = ''function''"
| "key_string (Arr xs) =
     join_comma (map (\<lambda>x. if x = Undefined \<or> x = Null then [] else key_string x) xs)"
| "key_string (Obj ps) = ''[object Object]''"
| "key_string (Elem t k ps cs) = ''[object Object]''"

text \<open>The key that an element gets from the attribute \<open>key={v}\<close>: none for \<open>undefined\<close>,
  else the string of the value.\<close>

definition jsx_key :: "node \<Rightarrow> string option" where
  "jsx_key v = (if v = Undefined then None else Some (key_string v))"

text \<open>
  \<open>React.cloneElement(element, config)\<close>: the key of the clone is \<open>config.key\<close> when the
  config has one, else the key of the element; the other properties of the config
  override the props of the element; the children stay.
\<close>

fun cloneElement :: "node \<Rightarrow> props \<Rightarrow> node" where
  "cloneElement (Elem t k ps cs) config =
     Elem t
       (if lookup config ''key'' \<noteq> Undefined then Some (key_string (lookup config ''key'')) else k)
       (spread ps (filter (\<lambda>(name, v). name \<noteq> ''key'' \<and> name \<noteq> ''ref'') config))
       cs"
| "cloneElement n config = n"

section \<open>The props and the hooks\<close>

record ListToolBarTabs =
  activeKey :: "string option"
  onChange :: "handler option"
  items :: "props list option"

text \<open>
  \<open>ListToolBarProps\<close>.  An absent optional prop is \<open>Undefined\<close> or \<open>None\<close>.  The props
  typed \<open>React.ReactNode\<close>, and the unions with it (\<open>tooltip\<close>, \<open>search\<close>, the entries of
  \<open>settings\<close>), are values; \<open>menu\<close> is an object or absent.
\<close>

record ListToolBarProps =
  customizePrefixCls :: "string option"
  className :: "string option"
  style :: node
  title :: node
  subTitle :: node
  tooltip :: node
  search :: node
  onSearch :: "handler option"
  actions :: "node list option"
  settings :: "node list option"
  multipleLine :: "bool option"
  filter_prop :: node
  tabs :: "ListToolBarTabs option"
  menu :: node

text \<open>
  What the hooks return in one render: \<open>prefixCls\<close> is the result of
  \<open>getPrefixCls('pro-table-list-toolbar', customizePrefixCls)\<close>, \<open>hashId\<close> that of
  \<open>useStyle\<close>, \<open>placeholder\<close> the localized message and \<open>colSize\<close> the breakpoint of
  \<open>useAntdMediaQuery\<close>.
\<close>

record hooks =
  prefixCls :: string
  hashId :: string
  placeholder :: string
  colSize :: string

text \<open>The props object \<open>{}\<close>: every optional prop absent.\<close>

definition noProps :: ListToolBarProps where
  "noProps = \<lparr>customizePrefixCls = None, className = None, style = Undefined,
     title = Undefined, subTitle = Undefined, tooltip = Undefined, search = Undefined,
     onSearch = None, actions = None, settings = None, multipleLine = None,
     filter_prop = Undefined, tabs = None, menu = Undefined\<rparr>"

text \<open>The defaults of the destructuring: \<open>multipleLine = false\<close>, \<open>actions = []\<close>,
  \<open>settings = []\<close>, \<open>tabs = {}\<close>.\<close>

definition multipleLine_of :: "ListToolBarProps \<Rightarrow> bool" where
  "multipleLine_of p = (case multipleLine p of None \<Rightarrow> False | Some b \<Rightarrow> b)"

definition actions_of :: "ListToolBarProps \<Rightarrow> node list" where
  "actions_of p = (case actions p of None \<Rightarrow> [] | Some xs \<Rightarrow> xs)"

definition settings_of :: "ListToolBarProps \<Rightarrow> node list" where
  "settings_of p = (case settings p of None \<Rightarrow> [] | Some xs \<Rightarrow> xs)"

definition tabs_of :: "ListToolBarTabs option \<Rightarrow> ListToolBarTabs" where
  "tabs_of t = (case t of None \<Rightarrow> \<lparr>activeKey = None, onChange = None, items = None\<rparr> | Some x \<Rightarrow> x)"

section \<open>The component\<close>

definition getSettingItem :: "node \<Rightarrow> node" where
  "getSettingItem setting =
     (if isValidElement setting then setting
      else if truthy setting then
        (let icon = get setting ''icon'';
             tooltip = get setting ''tooltip'';
             onClick = get setting ''onClick'';
             key = get setting ''key''
         in if truthy icon \<and> truthy tooltip then
              Elem ''Tooltip'' None [(''title'', tooltip)]
                [Elem ''span'' (jsx_key key) [(''onClick'', Fn (SettingClick onClick key))]
                   [icon]]
            else icon)
      else Null)"

text \<open>The key of a tab item, \<open>item.key?.toString() || index?.toString()\<close>, and the key of
  its pane, \<open>key={item.key || index}\<close>.\<close>

definition tabKey :: "props \<Rightarrow> nat \<Rightarrow> string" where
  "tabKey item index =
     (let key = lookup item ''key'' in
      if key = Undefined \<or> key = Null then string_of_nat index
      else if key_string key \<noteq> [] then key_string key
      else string_of_nat index)"

definition paneKey :: "props \<Rightarrow> nat \<Rightarrow> string" where
  "paneKey item index =
     (let key = lookup item ''key'' in
      if truthy key then key_string key else string_of_nat index)"

definition tabItem :: "nat \<times> props \<Rightarrow> node" where
  "tabItem x = (case x of (index, item) \<Rightarrow>
     Obj (set_prop ''key'' (Str (tabKey item index))
            (spread [(''label'', lookup item ''tab'')] item)))"

definition tabPane :: "nat \<times> props \<Rightarrow> node" where
  "tabPane x = (case x of (index, item) \<Rightarrow>
     Elem ''Tabs.TabPane'' (Some (paneKey item index))
       (set_prop ''tab'' (lookup item ''tab'')
          (filter (\<lambda>(name, v). name \<noteq> ''key'' \<and> name \<noteq> ''ref'') item))
       [])"

definition ListToolBarTabBar :: "string \<Rightarrow> ListToolBarTabs option \<Rightarrow> bool \<Rightarrow> node \<Rightarrow> node" where
  "ListToolBarTabBar pc tabs0 ml filtersNode =
     (let tabs = tabs_of tabs0 in
      if \<not> ml then Null
      else Elem ''div'' None [(''className'', Str (pc @ ''-extra-line''))]
        [case items tabs of
           None \<Rightarrow> filtersNode
         | Some its \<Rightarrow>
             if length its \<noteq> 0 then
               Elem ''Tabs'' None
                 [(''activeKey'', opt_str (activeKey tabs)),
                  (''items'', Arr (map tabItem (enumerate 0 its))),
                  (''onChange'', opt_fn (onChange tabs)),
                  (''tabBarExtraContent'', filtersNode)]
                 [Arr (map tabPane (enumerate 0 its))]
             else filtersNode])"

definition isMobile :: "hooks \<Rightarrow> bool" where
  "isMobile h = (colSize h = ''sm'' \<or> colSize h = ''xs'')"

definition searchNode :: "hooks \<Rightarrow> ListToolBarProps \<Rightarrow> node" where
  "searchNode h p =
     (if \<not> truthy (search p) then Null
      else if isValidElement (search p) then search p
      else Elem ''Input.Search'' None
             (set_prop ''onSearch''
                (Fn (SearchSubmit (onSearch p) (get (search p) ''onSearch'')))
                (spread [(''style'', Obj [(''width'', Num 200)]),
                         (''placeholder'', Str (placeholder h))]
                   (ownProps (search p))))
             [])"

definition filtersNode :: "hooks \<Rightarrow> ListToolBarProps \<Rightarrow> node" where
  "filtersNode h p =
     (if truthy (filter_prop p) then
        Elem ''div'' None [(''className'', Str (prefixCls h @ ''-filter '' @ hashId h))]
          [filter_prop p]
      else Null)"

definition hasTitle :: "ListToolBarProps \<Rightarrow> node" where
  "hasTitle p = js_or (js_or (js_or (menu p) (title p)) (subTitle p)) (tooltip p)"

definition actionItem :: "nat \<times> node \<Rightarrow> node" where
  "actionItem x = (case x of (index, action) \<Rightarrow>
     if \<not> isValidElement action then
       Elem ''React.Fragment'' (Some (string_of_nat index)) [] [action]
     else
       cloneElement action
         (spread [(''key'', Num (int index))]
            (case action of Elem t k ps cs \<Rightarrow> ps | _ \<Rightarrow> [])))"

text \<open>\<open>actions\<close> is typed as an array, so the test \<open>!Array.isArray(actions)\<close> of the
  source is never true.\<close>

definition actionDom :: "ListToolBarProps \<Rightarrow> node" where
  "actionDom p =
     (if length (actions_of p) < 1 then Null
      else Elem ''Space'' None [(''align'', Str ''center'')]
             [Arr (map actionItem (enumerate 0 (actions_of p)))])"

definition hasRight :: "hooks \<Rightarrow> ListToolBarProps \<Rightarrow> node" where
  "hasRight h p =
     js_or (js_or (js_or (js_and (hasTitle p) (searchNode h p))
                         (js_and (js_not (Bool (multipleLine_of p))) (filtersNode h p)))
                  (actionDom p))
           (Num (int (length (settings_of p))))"

definition hasLeft :: "hooks \<Rightarrow> ListToolBarProps \<Rightarrow> node" where
  "hasLeft h p =
     js_or (js_or (js_or (js_or (tooltip p) (title p)) (subTitle p)) (menu p))
           (js_and (js_not (hasTitle p)) (searchNode h p))"

text \<open>The title block, \<open>div\<close> of class \<open>-title\<close> around \<open>LabelIconTip\<close>, and the search box,
  \<open>div\<close> of class \<open>-search\<close> around the search node: the source writes each of them
  out twice.  The menu is \<open><HeaderMenu {...menu} prefixCls={prefixCls} />\<close>.\<close>

definition headerMenu :: "hooks \<Rightarrow> ListToolBarProps \<Rightarrow> node" where
  "headerMenu h p =
     Elem ''HeaderMenu'' None
       (set_prop ''prefixCls'' (Str (prefixCls h)) (ownProps (menu p))) []"

definition titleBlock :: "hooks \<Rightarrow> ListToolBarProps \<Rightarrow> node" where
  "titleBlock h p =
     Elem ''div'' None [(''className'', Str (prefixCls h @ ''-title '' @ hashId h))]
       [Elem ''LabelIconTip'' None
          [(''tooltip'', tooltip p), (''label'', title p), (''subTitle'', subTitle p)] []]"

definition searchBox :: "hooks \<Rightarrow> ListToolBarProps \<Rightarrow> node" where
  "searchBox h p =
     Elem ''div'' None [(''className'', Str (prefixCls h @ ''-search '' @ hashId h))]
       [searchNode h p]"

definition leftTitleDom :: "hooks \<Rightarrow> ListToolBarProps \<Rightarrow> node" where
  "leftTitleDom h p =
     (if \<not> truthy (hasLeft h p) \<and> truthy (hasRight h p) then
        Elem ''div'' None [(''className'', Str (prefixCls h @ ''-left '' @ hashId h))] []
      else if \<not> truthy (menu p) \<and> (truthy (hasTitle p) \<or> \<not> truthy (searchNode h p)) then
        Elem ''div'' None [(''className'', Str (prefixCls h @ ''-left '' @ hashId h))]
          [titleBlock h p]
      else
        Elem ''Space'' None [(''className'', Str (prefixCls h @ ''-left '' @ hashId h))]
          [js_and (js_and (hasTitle p) (js_not (menu p))) (titleBlock h p),
           js_and (menu p) (headerMenu h p),
           if truthy (js_and (js_not (hasTitle p)) (searchNode h p)) then searchBox h p
           else Null])"

definition settingSlot :: "hooks \<Rightarrow> nat \<times> node \<Rightarrow> node" where
  "settingSlot h x = (case x of (index, setting) \<Rightarrow>
     Elem ''div'' (Some (string_of_nat index))
       [(''className'', Str (prefixCls h @ ''-setting-item '' @ hashId h))]
       [getSettingItem setting])"

definition rightTitleDom :: "hooks \<Rightarrow> ListToolBarProps \<Rightarrow> node" where
  "rightTitleDom h p =
     (if \<not> truthy (hasRight h p) then Null
      else
        Elem ''Space'' None
          [(''className'', Str (prefixCls h @ ''-right '' @ hashId h)),
           (''direction'', Str (if isMobile h then ''vertical'' else ''horizontal'')),
           (''size'', Num 8),
           (''align'', Str (if isMobile h then ''end'' else ''center''))]
          [if \<not> multipleLine_of p then filtersNode h p else Null,
           if truthy (js_and (hasTitle p) (searchNode h p)) then searchBox h p else Null,
           actionDom p,
           if truthy (Num (int (length (settings_of p)))) then
             Elem ''Space'' None
               [(''size'', Num 12), (''align'', Str ''center''),
                (''className'', Str (prefixCls h @ ''-setting-items '' @ hashId h))]
               [Arr (map (settingSlot h) (enumerate 0 (settings_of p)))]
           else Null])"

definition titleNode :: "hooks \<Rightarrow> ListToolBarProps \<Rightarrow> node" where
  "titleNode h p =
     (if \<not> truthy (hasRight h p) \<and> \<not> truthy (hasLeft h p) then Null
      else
        Elem ''div'' None
          [(''className'',
            Str (classNames ([prefixCls h @ ''-container'', hashId h]
                   @ (if isMobile h then [prefixCls h @ ''-container-mobile''] else []))))]
          [leftTitleDom h p, rightTitleDom h p])"

text \<open>The element that the component hands to \<open>wrapSSR\<close>, with the tab bar rendered.\<close>

definition ListToolBar :: "hooks \<Rightarrow> ListToolBarProps \<Rightarrow> node" where
  "ListToolBar h p =
     Elem ''div'' None
       [(''style'', style p),
        (''className'',
         Str (classNames [prefixCls h, hashId h,
                (case className p of None \<Rightarrow> [] | Some c \<Rightarrow> c)]))]
       [titleNode h p,
        ListToolBarTabBar (prefixCls h) (tabs p) (multipleLine_of p) (filtersNode h p)]"

section \<open>Reading the output\<close>

text \<open>The search boxes among the children of a region: the \<open>div\<close>s of class \<open>-search\<close>.\<close>

definition searchBoxes :: "hooks \<Rightarrow> node \<Rightarrow> nat" where
  "searchBoxes h region =
     length (filter (has_class (prefixCls h @ ''-search '' @ hashId h)) (children_of region))"



text \<open>The children of an element that React renders something for.\<close>

definition rendered_children :: "node \<Rightarrow> node list" where
  "rendered_children n = filter (\<lambda>c. \<not> renders_nothing c) (children_of n)"

text \<open>The hooks of a render on a wide viewport, with the default prefix.\<close>

definition desktopHooks :: hooks where
  "desktopHooks = \<lparr>prefixCls = ''ant-pro-table-list-toolbar'', hashId = ''css-var'',
     placeholder = ''Please enter'', colSize = ''md''\<rparr>"


section \<open>Truthiness of the derived values\<close>

lemma truthy_js_or: "truthy (js_or a b) = (truthy a \<or> truthy b)"
  by (simp add: js_or_def)

lemma truthy_js_and: "truthy (js_and a b) = (truthy a \<and> truthy b)"
  by (simp add: js_and_def)

lemma truthy_js_not: "truthy (js_not a) = (\<not> truthy a)"
  by (simp add: js_not_def)

lemmas truthy_js = truthy_js_or truthy_js_and truthy_js_not

lemma falsy_not_element: "\<not> truthy n \<Longrightarrow> \<not> isValidElement n"
  by (cases n) simp_all

lemma truthy_searchNode: "truthy (searchNode h p) = truthy (search p)"
  by (cases "search p") (simp_all add: searchNode_def)

lemma truthy_filtersNode: "truthy (filtersNode h p) = truthy (filter_prop p)"
  by (simp add: filtersNode_def)

lemma truthy_actionDom: "truthy (actionDom p) = (actions_of p \<noteq> [])"
  by (simp add: actionDom_def)

lemma hasTitle_truthy:
  "truthy (hasTitle p) =
     (truthy (menu p) \<or> truthy (title p) \<or> truthy (subTitle p) \<or> truthy (tooltip p))"
  by (simp add: hasTitle_def truthy_js)

lemma hasLeft_truthy:
  "truthy (hasLeft h p) =
     (truthy (tooltip p) \<or> truthy (title p) \<or> truthy (subTitle p) \<or> truthy (menu p)
      \<or> (\<not> truthy (hasTitle p) \<and> truthy (search p)))"
  by (simp add: hasLeft_def truthy_js truthy_searchNode)

lemma hasRight_truthy:
  "truthy (hasRight h p) =
     ((truthy (hasTitle p) \<and> truthy (search p))
      \<or> (\<not> multipleLine_of p \<and> truthy (filter_prop p))
      \<or> actions_of p \<noteq> []
      \<or> settings_of p \<noteq> [])"
  by (simp add: hasRight_def truthy_js truthy_searchNode truthy_filtersNode truthy_actionDom)

section \<open>Properties, keys and slots\<close>

lemma string_of_nat_0: "string_of_nat 0 = ''0''"
  by (simp add: string_of_nat.simps digit_def)

lemma lookup_set_prop: "lookup (set_prop k v ps) k = v"
  by (induction ps) (auto simp: lookup_def)

lemma lookup_set_prop_other: "k' \<noteq> k \<Longrightarrow> lookup (set_prop k v ps) k' = lookup ps k'"
  by (induction ps) (auto simp: lookup_def)

lemma lookup_Nil: "lookup [] k = Undefined"
  by (simp add: lookup_def)

lemma lookup_Cons: "lookup ((k', v) # ps) k = (if k' = k then v else lookup ps k)"
  by (simp add: lookup_def)

lemma lookup_spread_absent: "map_of ps k = None \<Longrightarrow> lookup (spread base ps) k = lookup base k"
  by (induction ps arbitrary: base) (auto simp: lookup_set_prop_other split: if_splits)

lemma key_string_index: "key_string (Num (int i)) = string_of_nat i"
  by simp



section \<open>Class names of the parts\<close>

lemma has_class_searchBox:
  "has_class c (searchBox h p) = (c = prefixCls h @ ''-search '' @ hashId h)"
  by (auto simp: searchBox_def lookup_def)

lemma has_class_titleBlock:
  "has_class c (titleBlock h p) = (c = prefixCls h @ ''-title '' @ hashId h)"
  by (auto simp: titleBlock_def lookup_def)

lemma has_class_filtersNode:
  "has_class c (filtersNode h p) =
     (truthy (filter_prop p) \<and> c = prefixCls h @ ''-filter '' @ hashId h)"
  by (auto simp: filtersNode_def lookup_def)

lemma has_class_actionDom: "has_class c (actionDom p) = False"
  by (simp add: actionDom_def)

lemma has_class_falsy: "\<not> truthy n \<Longrightarrow> has_class c n = False"
  by (cases n) simp_all

lemma searchBoxes_left:
  "searchBoxes h (leftTitleDom h p) =
     (if \<not> truthy (hasTitle p) \<and> truthy (search p) then 1 else 0)"
  by (simp add: searchBoxes_def leftTitleDom_def hasLeft_truthy hasTitle_truthy truthy_js
      truthy_searchNode has_class_searchBox has_class_titleBlock js_and_def js_not_def
      has_class_falsy headerMenu_def)

lemma searchBoxes_right:
  "searchBoxes h (rightTitleDom h p) =
     (if truthy (hasTitle p) \<and> truthy (search p) then 1 else 0)"
  by (simp add: searchBoxes_def rightTitleDom_def hasRight_truthy truthy_js
      truthy_searchNode has_class_searchBox has_class_filtersNode has_class_actionDom)







lemma titleNode_regions:
  "truthy (hasLeft h p) \<or> truthy (hasRight h p) \<Longrightarrow>
   children_of (titleNode h p) = [leftTitleDom h p, rightTitleDom h p]"
  by (auto simp: titleNode_def)

lemma ListToolBar_children:
  "children_of (ListToolBar h p) =
     [titleNode h p,
      ListToolBarTabBar (prefixCls h) (tabs p) (multipleLine_of p) (filtersNode h p)]"
  by (simp add: ListToolBar_def)


section \<open>Placement of the search box\<close>



text \<open>
  C3, as the code has it.  The claim reads: with \<open>title\<close> and \<open>menu\<close> absent and \<open>search\<close> set,
  the search box is in the left region.  With a subtitle the title block takes the left
  region and the search box goes to the right one.
\<close>

theorem search_not_left_with_subtitle:
  "\<not> truthy (title (noProps\<lparr>subTitle := Str ''x'', search := Bool True\<rparr>))
   \<and> \<not> truthy (menu (noProps\<lparr>subTitle := Str ''x'', search := Bool True\<rparr>))
   \<and> truthy (searchNode desktopHooks (noProps\<lparr>subTitle := Str ''x'', search := Bool True\<rparr>))
   \<and> searchBoxes desktopHooks
        (leftTitleDom desktopHooks (noProps\<lparr>subTitle := Str ''x'', search := Bool True\<rparr>)) = 0
   \<and> searchBoxes desktopHooks
        (rightTitleDom desktopHooks (noProps\<lparr>subTitle := Str ''x'', search := Bool True\<rparr>)) = 1"
  by (simp add: searchBoxes_left searchBoxes_right hasTitle_truthy truthy_searchNode noProps_def)

text \<open>
  C3, amended.  When \<open>title\<close>, \<open>subTitle\<close>, \<open>tooltip\<close> and \<open>menu\<close> are all absent and
  \<open>search\<close> is set, the title container is rendered and the search box is the last child
  of its left region, the only search box there.
\<close>

theorem search_left_without_title_parts:
  assumes "\<not> truthy (title p)" and "\<not> truthy (subTitle p)" and "\<not> truthy (tooltip p)"
    and "\<not> truthy (menu p)" and "truthy (search p)"
  shows "children_of (titleNode h p) = [leftTitleDom h p, rightTitleDom h p]
     \<and> last (children_of (leftTitleDom h p)) = searchBox h p
     \<and> searchBoxes h (leftTitleDom h p) = 1"
proof -
  have t: "\<not> truthy (hasTitle p)"
    using assms by (simp add: hasTitle_truthy)
  have l: "truthy (hasLeft h p)"
    using assms t by (simp add: hasLeft_truthy)
  have "last (children_of (leftTitleDom h p)) = searchBox h p"
    using assms t l by (simp add: leftTitleDom_def truthy_js truthy_searchNode)
  with t l assms(5) show ?thesis
    by (simp add: titleNode_regions searchBoxes_left)
qed

theorem search_left_without_title_parts_witness:
  "\<not> truthy (title (noProps\<lparr>search := Bool True\<rparr>))
   \<and> \<not> truthy (subTitle (noProps\<lparr>search := Bool True\<rparr>))
   \<and> \<not> truthy (tooltip (noProps\<lparr>search := Bool True\<rparr>))
   \<and> \<not> truthy (menu (noProps\<lparr>search := Bool True\<rparr>))
   \<and> truthy (search (noProps\<lparr>search := Bool True\<rparr>))
   \<and> last (children_of (leftTitleDom desktopHooks (noProps\<lparr>search := Bool True\<rparr>)))
       = searchBox desktopHooks (noProps\<lparr>search := Bool True\<rparr>)"
proof -
  have a: "\<not> truthy (title (noProps\<lparr>search := Bool True\<rparr>))"
    and b: "\<not> truthy (subTitle (noProps\<lparr>search := Bool True\<rparr>))"
    and c: "\<not> truthy (tooltip (noProps\<lparr>search := Bool True\<rparr>))"
    and d: "\<not> truthy (menu (noProps\<lparr>search := Bool True\<rparr>))"
    and e: "truthy (search (noProps\<lparr>search := Bool True\<rparr>))"
    by (simp_all add: noProps_def)
  show ?thesis
    using a b c d e search_left_without_title_parts [OF a b c d e, of desktopHooks] by simp
qed

section \<open>The presence flags\<close>

text \<open>
  C2.  The three derived values are truthy exactly when the formulas hold, where a prop is
  present when it is truthy and \<open>search\<close> resolves to content when the search node is
  truthy: \<open>hasTitle\<close> iff one of menu, title, subtitle, tooltip is present; \<open>hasLeft\<close> iff
  one of tooltip, title, subtitle, menu is present, or \<open>hasTitle\<close> fails and search
  resolves; \<open>hasRight\<close> iff \<open>hasTitle\<close> holds and search resolves, or \<open>multipleLine\<close> is
  off and the filter is present, or there is an action, or there is a setting.
\<close>

theorem presence_flags:
  "(truthy (hasTitle p) \<longleftrightarrow>
      truthy (menu p) \<or> truthy (title p) \<or> truthy (subTitle p) \<or> truthy (tooltip p))
   \<and> (truthy (hasLeft h p) \<longleftrightarrow>
      truthy (tooltip p) \<or> truthy (title p) \<or> truthy (subTitle p) \<or> truthy (menu p)
      \<or> (\<not> truthy (hasTitle p) \<and> truthy (searchNode h p)))
   \<and> (truthy (hasRight h p) \<longleftrightarrow>
      (truthy (hasTitle p) \<and> truthy (searchNode h p))
      \<or> (\<not> multipleLine_of p \<and> truthy (filter_prop p))
      \<or> actions_of p \<noteq> []
      \<or> settings_of p \<noteq> [])"
  by (simp add: hasTitle_truthy hasLeft_truthy hasRight_truthy truthy_searchNode)

theorem presence_flags_witness:
  "\<not> truthy (hasTitle (noProps\<lparr>search := Bool True, settings := Some [Null]\<rparr>))
   \<and> truthy (hasLeft desktopHooks (noProps\<lparr>search := Bool True, settings := Some [Null]\<rparr>))
   \<and> truthy (hasRight desktopHooks (noProps\<lparr>search := Bool True, settings := Some [Null]\<rparr>))"
  using presence_flags [of "noProps\<lparr>search := Bool True, settings := Some [Null]\<rparr>" desktopHooks]
  by (simp add: noProps_def settings_of_def truthy_searchNode)

section \<open>The left region\<close>

text \<open>
  C4, at the props \<open>{tooltip: 0, search: true}\<close>.  \<open>hasTitle\<close> is \<open>0\<close>: it does not hold,
  there is no menu, and search resolves, so the third row of the table applies and asks
  for a stack with the search box alone.  The stack of the code has the children \<open>0\<close>,
  \<open>undefined\<close> and the search box: \<open>hasTitle && !menu && (...)\<close> evaluates to the falsy
  \<open>hasTitle\<close> itself, and React renders the number.
\<close>

theorem leftTitleDom_renders_falsy_hasTitle:
  "hasTitle (noProps\<lparr>tooltip := Num 0, search := Bool True\<rparr>) = Num 0
   \<and> \<not> truthy (menu (noProps\<lparr>tooltip := Num 0, search := Bool True\<rparr>))
   \<and> truthy (searchNode desktopHooks (noProps\<lparr>tooltip := Num 0, search := Bool True\<rparr>))
   \<and> leftTitleDom desktopHooks (noProps\<lparr>tooltip := Num 0, search := Bool True\<rparr>)
       = Elem ''Space'' None
           [(''className'', Str ''ant-pro-table-list-toolbar-left css-var'')]
           [Num 0, Undefined,
            searchBox desktopHooks (noProps\<lparr>tooltip := Num 0, search := Bool True\<rparr>)]
   \<and> rendered_children
        (leftTitleDom desktopHooks (noProps\<lparr>tooltip := Num 0, search := Bool True\<rparr>))
       = [Num 0, searchBox desktopHooks (noProps\<lparr>tooltip := Num 0, search := Bool True\<rparr>)]"
  by (simp add: rendered_children_def leftTitleDom_def hasLeft_truthy hasRight_truthy
      hasTitle_truthy truthy_searchNode truthy_js hasTitle_def js_or_def js_and_def js_not_def
      noProps_def desktopHooks_def searchBox_def settings_of_def actions_of_def
      multipleLine_of_def)

text \<open>
  The decision table of the left region, for props whose \<open>hasTitle\<close> and \<open>menu\<close> are
  truthy or rendered as nothing: the placeholder, else the wrapper of the title block
  alone, else a stack that renders the title block, the menu and the search box under the
  conditions of the third row, in this order.
\<close>

lemma leftTitleDom_table:
  assumes "truthy (hasTitle p) \<or> renders_nothing (hasTitle p)"
    and "truthy (menu p) \<or> renders_nothing (menu p)"
  shows "(\<not> truthy (hasLeft h p) \<and> truthy (hasRight h p) \<longrightarrow>
       leftTitleDom h p =
         Elem ''div'' None [(''className'', Str (prefixCls h @ ''-left '' @ hashId h))] [])
   \<and> (\<not> (\<not> truthy (hasLeft h p) \<and> truthy (hasRight h p))
       \<and> \<not> truthy (menu p) \<and> (truthy (hasTitle p) \<or> \<not> truthy (searchNode h p)) \<longrightarrow>
       leftTitleDom h p =
         Elem ''div'' None [(''className'', Str (prefixCls h @ ''-left '' @ hashId h))]
           [titleBlock h p])
   \<and> (\<not> (\<not> truthy (hasLeft h p) \<and> truthy (hasRight h p))
       \<and> \<not> (\<not> truthy (menu p) \<and> (truthy (hasTitle p) \<or> \<not> truthy (searchNode h p))) \<longrightarrow>
       elem_type (leftTitleDom h p) = ''Space''
       \<and> rendered_children (leftTitleDom h p) =
          (if truthy (hasTitle p) \<and> \<not> truthy (menu p) then [titleBlock h p] else [])
          @ (if truthy (menu p) then [headerMenu h p] else [])
          @ (if \<not> truthy (hasTitle p) \<and> truthy (searchNode h p) then [searchBox h p] else []))"
  using assms
  by (auto simp: leftTitleDom_def rendered_children_def truthy_js js_and_def js_not_def
      headerMenu_def titleBlock_def searchBox_def)

section \<open>The secondary line and the filter\<close>



section \<open>Submitting a search\<close>

text \<open>
  C6.  With a top-level \<open>onSearch\<close> callback \<open>f\<close>, submitting the query \<open>q\<close> in the search
  input built from an options object whose own \<open>onSearch\<close> is \<open>g\<close> calls \<open>f\<close> with \<open>q\<close>
  and then \<open>g\<close> with \<open>q\<close> and the other arguments of the submit, and returns; built from
  an options object without \<open>onSearch\<close>, or from \<open>true\<close>, it calls \<open>f\<close> with \<open>q\<close> alone.
\<close>

theorem search_submit_calls_both:
  assumes "onSearch p = Some (Callback f)"
  shows "(search p = Obj opts \<and> lookup opts ''onSearch'' = Fn (Callback g) \<longrightarrow>
            fire (searchNode h p) ''onSearch'' (Str q # rest)
              = Returns [(f, [Str q]), (g, Str q # rest)])
     \<and> (search p = Obj opts \<and> lookup opts ''onSearch'' = Undefined \<longrightarrow>
            fire (searchNode h p) ''onSearch'' (Str q # rest) = Returns [(f, [Str q])])
     \<and> (search p = Bool True \<longrightarrow>
            fire (searchNode h p) ''onSearch'' (Str q # rest) = Returns [(f, [Str q])])"
proof (intro conjI impI)
  assume "search p = Obj opts \<and> lookup opts ''onSearch'' = Fn (Callback g)"
  with assms show "fire (searchNode h p) ''onSearch'' (Str q # rest)
      = Returns [(f, [Str q]), (g, Str q # rest)]"
    by (simp add: searchNode_def fire_def lookup_set_prop)
next
  assume "search p = Obj opts \<and> lookup opts ''onSearch'' = Undefined"
  with assms show "fire (searchNode h p) ''onSearch'' (Str q # rest) = Returns [(f, [Str q])]"
    by (simp add: searchNode_def fire_def lookup_set_prop)
next
  assume "search p = Bool True"
  with assms show "fire (searchNode h p) ''onSearch'' (Str q # rest) = Returns [(f, [Str q])]"
    by (simp add: searchNode_def fire_def lookup_def)
qed

theorem search_submit_calls_both_witness:
  "onSearch (noProps\<lparr>search := Obj [(''onSearch'', Fn (Callback 2))],
                     onSearch := Some (Callback 1)\<rparr>) = Some (Callback 1)
   \<and> fire (searchNode desktopHooks
        (noProps\<lparr>search := Obj [(''onSearch'', Fn (Callback 2))], onSearch := Some (Callback 1)\<rparr>))
        ''onSearch'' [Str ''abc'', Null]
      = Returns [(1, [Str ''abc'']), (2, [Str ''abc'', Null])]"
proof -
  have a: "onSearch (noProps\<lparr>search := Obj [(''onSearch'', Fn (Callback 2))],
                     onSearch := Some (Callback 1)\<rparr>) = Some (Callback 1)"
    by simp
  show ?thesis
    using a search_submit_calls_both [OF a, of "[(''onSearch'', Fn (Callback 2))]" 2
        desktopHooks "''abc''" "[Null]"]
    by (simp add: lookup_def)
qed

section \<open>The empty toolbar\<close>

text \<open>
  C7, as the code has it.  The claim reads: with every optional prop absent the composed
  output is empty and the toolbar renders nothing observable.  The component always
  returns its root element, which is rendered.
\<close>

theorem root_element_always_rendered:
  "ListToolBar desktopHooks noProps =
     Elem ''div'' None
       [(''style'', Undefined), (''className'', Str ''ant-pro-table-list-toolbar css-var'')]
       [Null, Null]
   \<and> \<not> renders_nothing (ListToolBar desktopHooks noProps)"
  by (simp add: titleNode_def hasLeft_truthy hasRight_truthy hasTitle_truthy ListToolBar_def
      ListToolBarTabBar_def noProps_def multipleLine_of_def actions_of_def settings_of_def
      desktopHooks_def classNames_def)

text \<open>
  C7, amended.  With every optional prop absent the title container is not created and
  there is no secondary line: the output is the root element alone, with its style and
  class name and the two children \<open>null\<close>, so nothing is rendered inside the root.
\<close>

theorem no_props_renders_nothing:
  "titleNode h noProps = Null
   \<and> ListToolBarTabBar (prefixCls h) (tabs noProps) (multipleLine_of noProps)
        (filtersNode h noProps) = Null
   \<and> ListToolBar h noProps =
        Elem ''div'' None
          [(''style'', Undefined), (''className'', Str (classNames [prefixCls h, hashId h, []]))]
          [Null, Null]
   \<and> rendered_children (ListToolBar h noProps) = []"
  by (simp add: titleNode_def hasLeft_truthy hasRight_truthy hasTitle_truthy ListToolBar_def
      ListToolBarTabBar_def rendered_children_def noProps_def multipleLine_of_def
      actions_of_def settings_of_def)

section \<open>Setting items\<close>

text \<open>
  C8, as the code has it.  The claim reads: a descriptor with icon and tooltip gives the
  wrapped icon, and a descriptor without icon gives nothing.  The descriptor
  \<open>{icon: 0, tooltip: 'T'}\<close> has a tooltip and the icon \<open>0\<close>, which is falsy: the result is
  the bare \<open>0\<close>, neither wrapped nor nothing, since React renders the number.
\<close>

theorem getSettingItem_falsy_icon_rendered:
  "lookup [(''icon'', Num 0), (''tooltip'', Str ''T'')] ''icon'' = Num 0
   \<and> truthy (lookup [(''icon'', Num 0), (''tooltip'', Str ''T'')] ''tooltip'')
   \<and> getSettingItem (Obj [(''icon'', Num 0), (''tooltip'', Str ''T'')]) = Num 0
   \<and> \<not> renders_nothing (getSettingItem (Obj [(''icon'', Num 0), (''tooltip'', Str ''T'')]))"
  by (simp add: getSettingItem_def lookup_Cons)

text \<open>
  C8, amended.  For a descriptor whose icon and tooltip are both truthy,
  \<open>getSettingItem\<close> gives the tooltip element around a \<open>span\<close> that holds the icon and has
  the key of the descriptor; a click on the \<open>span\<close> calls the \<open>onClick\<close> of the descriptor
  with the key of the descriptor and returns, and calls nothing when \<open>onClick\<close> is absent.
  For every other descriptor it gives the icon value itself, not wrapped: the bare icon
  when the icon is truthy and the tooltip is not, and a value that renders nothing when
  the icon is \<open>undefined\<close>, \<open>null\<close> or \<open>false\<close>.  For a falsy entry it gives \<open>null\<close>.  The
  function is total: no branch of it raises.
\<close>

theorem getSettingItem_cases:
  "(truthy (lookup d ''icon'') \<and> truthy (lookup d ''tooltip'') \<longrightarrow>
      getSettingItem (Obj d)
        = Elem ''Tooltip'' None [(''title'', lookup d ''tooltip'')]
            [Elem ''span'' (jsx_key (lookup d ''key''))
               [(''onClick'', Fn (SettingClick (lookup d ''onClick'') (lookup d ''key'')))]
               [lookup d ''icon'']]
      \<and> (lookup d ''onClick'' = Fn (Callback c) \<longrightarrow>
           fire (hd (children_of (getSettingItem (Obj d)))) ''onClick'' args
             = Returns [(c, [lookup d ''key''])])
      \<and> (\<not> truthy (lookup d ''onClick'') \<longrightarrow>
           fire (hd (children_of (getSettingItem (Obj d)))) ''onClick'' args = Returns []))
   \<and> (\<not> (truthy (lookup d ''icon'') \<and> truthy (lookup d ''tooltip'')) \<longrightarrow>
        getSettingItem (Obj d) = lookup d ''icon'')
   \<and> (\<not> truthy (lookup d ''icon'') \<and> renders_nothing (lookup d ''icon'') \<longrightarrow>
        renders_nothing (getSettingItem (Obj d)))
   \<and> (\<not> truthy s \<longrightarrow> getSettingItem s = Null)"
proof -
  have wrapped: "getSettingItem (Obj d)
        = Elem ''Tooltip'' None [(''title'', lookup d ''tooltip'')]
            [Elem ''span'' (jsx_key (lookup d ''key''))
               [(''onClick'', Fn (SettingClick (lookup d ''onClick'') (lookup d ''key'')))]
               [lookup d ''icon'']]"
    if "truthy (lookup d ''icon'') \<and> truthy (lookup d ''tooltip'')"
    using that by (simp add: getSettingItem_def Let_def)
  have click: "fire (hd (children_of (getSettingItem (Obj d)))) ''onClick'' args
             = Returns [(c, [lookup d ''key''])]"
    if "truthy (lookup d ''icon'') \<and> truthy (lookup d ''tooltip'')"
      and "lookup d ''onClick'' = Fn (Callback c)"
    using that(2) by (simp add: wrapped [OF that(1)] fire_def lookup_Cons)
  have no_click: "fire (hd (children_of (getSettingItem (Obj d)))) ''onClick'' args = Returns []"
    if "truthy (lookup d ''icon'') \<and> truthy (lookup d ''tooltip'')"
      and "\<not> truthy (lookup d ''onClick'')"
    using that(2) by (simp add: wrapped [OF that(1)] fire_def lookup_Cons)
  have bare: "getSettingItem (Obj d) = lookup d ''icon''"
    if "\<not> (truthy (lookup d ''icon'') \<and> truthy (lookup d ''tooltip''))"
    using that by (auto simp: getSettingItem_def Let_def)
  have none: "renders_nothing (getSettingItem (Obj d))"
    if "\<not> truthy (lookup d ''icon'') \<and> renders_nothing (lookup d ''icon'')"
    using that by (simp add: getSettingItem_def Let_def)
  have falsy: "getSettingItem s = Null" if "\<not> truthy s"
    using that by (simp add: getSettingItem_def falsy_not_element)
  show ?thesis
    using wrapped click no_click bare none falsy by blast
qed

theorem getSettingItem_cases_witness:
  "truthy (lookup [(''icon'', Str ''gear''), (''tooltip'', Str ''T''), (''key'', Str ''k''),
                   (''onClick'', Fn (Callback 3))] ''icon'')
   \<and> truthy (lookup [(''icon'', Str ''gear''), (''tooltip'', Str ''T''), (''key'', Str ''k''),
                   (''onClick'', Fn (Callback 3))] ''tooltip'')
   \<and> getSettingItem
        (Obj [(''icon'', Str ''gear''), (''tooltip'', Str ''T''), (''key'', Str ''k''),
              (''onClick'', Fn (Callback 3))])
       = Elem ''Tooltip'' None [(''title'', Str ''T'')]
           [Elem ''span'' (Some ''k'')
              [(''onClick'', Fn (SettingClick (Fn (Callback 3)) (Str ''k'')))]
              [Str ''gear'']]
   \<and> fire (hd (children_of (getSettingItem
        (Obj [(''icon'', Str ''gear''), (''tooltip'', Str ''T''), (''key'', Str ''k''),
              (''onClick'', Fn (Callback 3))])))) ''onClick'' [] = Returns [(3, [Str ''k''])]
   \<and> \<not> truthy (lookup [(''icon'', Str ''gear'')] ''tooltip'')
   \<and> getSettingItem (Obj [(''icon'', Str ''gear'')]) = Str ''gear''
   \<and> \<not> truthy (lookup [(''tooltip'', Str ''T'')] ''icon'')
   \<and> renders_nothing (getSettingItem (Obj [(''tooltip'', Str ''T'')]))
   \<and> \<not> truthy Null
   \<and> getSettingItem Null = Null"
proof -
  let ?d = "[(''icon'', Str ''gear''), (''tooltip'', Str ''T''), (''key'', Str ''k''),
             (''onClick'', Fn (Callback 3))]"
  let ?e = "[(''icon'', Str ''gear'')]"
  let ?g = "[(''tooltip'', Str ''T'')]"
  have a: "truthy (lookup ?d ''icon'') \<and> truthy (lookup ?d ''tooltip'')"
    by (simp add: lookup_Cons)
  have b: "lookup ?d ''onClick'' = Fn (Callback 3)"
    by (simp add: lookup_Cons)
  have v: "lookup ?d ''key'' = Str ''k''" "lookup ?d ''icon'' = Str ''gear''"
    "lookup ?d ''tooltip'' = Str ''T''" "jsx_key (Str ''k'') = Some ''k''"
    by (simp_all add: lookup_Cons jsx_key_def)
  have e: "\<not> (truthy (lookup ?e ''icon'') \<and> truthy (lookup ?e ''tooltip''))"
    "lookup ?e ''icon'' = Str ''gear''" "\<not> truthy (lookup ?e ''tooltip'')"
    by (simp_all add: lookup_Cons lookup_Nil)
  have g: "\<not> truthy (lookup ?g ''icon'') \<and> renders_nothing (lookup ?g ''icon'')"
    by (simp add: lookup_Cons lookup_Nil)
  have n: "\<not> truthy Null"
    by simp
  from getSettingItem_cases [of ?d 3 "[]" Null] a b n
  have 1: "getSettingItem (Obj ?d)
        = Elem ''Tooltip'' None [(''title'', lookup ?d ''tooltip'')]
            [Elem ''span'' (jsx_key (lookup ?d ''key''))
               [(''onClick'', Fn (SettingClick (lookup ?d ''onClick'') (lookup ?d ''key'')))]
               [lookup ?d ''icon'']]"
    and 2: "fire (hd (children_of (getSettingItem (Obj ?d)))) ''onClick'' []
        = Returns [(3, [lookup ?d ''key''])]"
    and 3: "getSettingItem Null = Null"
    by blast+
  from getSettingItem_cases [of ?e 3 "[]" Null] e(1)
  have 4: "getSettingItem (Obj ?e) = lookup ?e ''icon''"
    by blast
  from getSettingItem_cases [of ?g 3 "[]" Null] g
  have 5: "renders_nothing (getSettingItem (Obj ?g))"
    by blast
  show ?thesis
    using a n g e(3) 1 2 3 4 5 unfolding v b e(2) by blast
qed

text \<open>A click raises only when \<open>onClick\<close> is a truthy value that is no function, which the
  type of the descriptor excludes.\<close>

lemma click_non_function_raises:
  "invoke (SettingClick (Num 5) key) args = Raises []"
  by simp



section \<open>Keys of the actions\<close>

text \<open>
  C9, at the actions \<open>[<Button key="save">Save</Button>]\<close>.  The claim lets a keyed
  element keep its key.  The code clones it with the config \<open>{key: index, ...props}\<close>,
  and the props of an element never hold its key, so the clone has the key \<open>0\<close>.
\<close>

theorem action_key_overwritten:
  "actionDom (noProps\<lparr>actions := Some [Elem ''Button'' (Some ''save'') [] [Str ''Save'']]\<rparr>)
     = Elem ''Space'' None [(''align'', Str ''center'')]
         [Arr [Elem ''Button'' (Some ''0'') [] [Str ''Save'']]]"
  by (simp add: actionDom_def actions_of_def actionItem_def lookup_Cons string_of_nat_0)

text \<open>Every action gets its index as key: a keyed element as well as a value that is no
  element.\<close>

lemma actionItem_key:
  assumes "map_of ps ''key'' = None"
  shows "elem_key (actionItem (i, Elem t k ps cs)) = Some (string_of_nat i)"
proof -
  have "lookup (spread [(''key'', Num (int i))] ps) ''key'' = Num (int i)"
    using assms by (simp add: lookup_spread_absent lookup_Cons)
  then show ?thesis
    by (simp add: actionItem_def)
qed

lemma actionItem_key_fragment:
  "\<not> isValidElement a \<Longrightarrow> elem_key (actionItem (i, a)) = Some (string_of_nat i)"
  by (simp add: actionItem_def)

end
